theory Spec2Isabelle
  imports Complex_Main
begin

section \<open>Floating-point arithmetic\<close>

text \<open>
  The embedding follows \<^verbatim>\<open>single_robotiq_85_action_server.py\<close>. The source computes on
  Python floats. Their type is the parameter \<open>'f\<close> of the model, and every operation on
  them that the source uses is a field of the record below: the conversion \<^verbatim>\<open>float(n)\<close>
  of an integer, \<^verbatim>\<open>+\<close>, \<^verbatim>\<open>-\<close>, \<^verbatim>\<open>*\<close>, \<^verbatim>\<open>math.fabs\<close>, the comparison \<^verbatim>\<open><\<close>, the
  literal \<^verbatim>\<open>1e-9\<close> and the value \<^verbatim>\<open>0.0\<close> of a float field of a new message. The
  definitions apply these operations where the source applies them, and the theorems hold
  for every such record: nothing is assumed of rounding, of infinities or of NaN.
  Only the message fields that the source reads or writes are kept.
\<close>

record 'f float_ops =
  float_of_int :: "int \<Rightarrow> 'f"
  fadd :: "'f \<Rightarrow> 'f \<Rightarrow> 'f"
  fsub :: "'f \<Rightarrow> 'f \<Rightarrow> 'f"
  fmul :: "'f \<Rightarrow> 'f \<Rightarrow> 'f"
  fabs :: "'f \<Rightarrow> 'f"
  flt :: "'f \<Rightarrow> 'f \<Rightarrow> bool"
  f_1e_9 :: 'f
  f_zero :: 'f

section \<open>Messages and node state\<close>

text \<open>The message returned by \<^verbatim>\<open>self.get_clock().now().to_msg()\<close>.\<close>

record Time =
  sec :: int
  nanosec :: nat

text \<open>\<^verbatim>\<open>GripperStat\<close>, as received on \<^verbatim>\<open>/gripper/stat\<close>.\<close>

record 'f GripperStat =
  stat_position :: 'f
  is_moving :: bool
  obj_detected :: bool

text \<open>\<^verbatim>\<open>GripperCmd\<close>, as published on \<^verbatim>\<open>/gripper/cmd\<close>.\<close>

record 'f GripperCmd =
  cmd_position :: 'f
  force :: 'f
  speed :: 'f

text \<open>\<^verbatim>\<open>goal_handle.request.command\<close>.\<close>

record 'f GripperCommand =
  position :: 'f
  max_effort :: 'f

text \<open>
  \<^verbatim>\<open>GripperCommand.Feedback\<close>. The source binds \<^verbatim>\<open>result_msg\<close> to the feedback object
  before returning, so the same record also stands for the result message.
\<close>

record 'f Feedback =
  fb_position :: 'f
  stalled :: bool
  reached_goal :: bool

datatype GoalResponse = GoalResponse_REJECT | GoalResponse_ACCEPT

datatype CancelResponse = CancelResponse_REJECT | CancelResponse_ACCEPT

text \<open>The attributes of the node that the callbacks use.\<close>

record 'f Robotiq85ActionServer =
  timeout :: 'f
  position_tolerance :: 'f
  gripper_speed :: 'f
  stat :: "'f GripperStat option"

text \<open>What the node does to the outside, in the order in which it does it.\<close>

datatype 'f event =
    Log_info string
  | Log_warn string
  | Publish_cmd "'f GripperCmd"
  | Publish_feedback "'f Feedback"
  | Succeed

datatype exn = NameError

section \<open>The callbacks\<close>

text \<open>\<^verbatim>\<open>float(time_msg.sec) + (float(time_msg.nanosec) * 1e-9)\<close>.\<close>

definition get_time :: "'f float_ops \<Rightarrow> Time \<Rightarrow> 'f" where
  "get_time fl time_msg =
     fadd fl (float_of_int fl (sec time_msg))
             (fmul fl (float_of_int fl (int (nanosec time_msg))) (f_1e_9 fl))"

definition goal_callback ::
  "'f Robotiq85ActionServer \<Rightarrow> 'f GripperCommand \<Rightarrow> 'f event list \<times> GoalResponse" where
  "goal_callback self goal_request = ([Log_info ''Gripper received goal request''], GoalResponse_ACCEPT)"

definition cancel_callback :: "'f Robotiq85ActionServer \<Rightarrow> 'h \<Rightarrow> 'f event list \<times> CancelResponse" where
  "cancel_callback self goal_handle = ([Log_info ''Gripper received cancel request''], CancelResponse_ACCEPT)"

definition update_gripper_stat ::
  "'f Robotiq85ActionServer \<Rightarrow> 'f GripperStat \<Rightarrow> 'f Robotiq85ActionServer" where
  "update_gripper_stat self data = self\<lparr>stat := Some data\<rparr>"

section \<open>The execute callback\<close>

text \<open>
  What one pass through the \<^verbatim>\<open>while\<close> loop observes of its surroundings:
  the value of \<^verbatim>\<open>rclpy.ok()\<close>, the clock reading of \<^verbatim>\<open>self.get_time()\<close>, the status
  messages that the subscription has handed to \<^verbatim>\<open>_update_gripper_stat\<close> since the
  previous pass, and whether a cancellation of the goal has been requested by then.
  The status is taken as one snapshot per pass.
\<close>

record 'f tick =
  ok :: bool
  clock :: Time
  stat_msgs :: "'f GripperStat list"
  cancel_requested :: bool

text \<open>
  Where the loop stands: still running, left through \<^verbatim>\<open>goal_handle.succeed()\<close> and
  \<^verbatim>\<open>break\<close>, left through the timeout \<^verbatim>\<open>break\<close>, or left because \<^verbatim>\<open>rclpy.ok()\<close>
  was false.
\<close>

datatype phase = Polling | Succeeded | TimedOut | Shutdown

record 'f exec_state =
  node :: "'f Robotiq85ActionServer"
  feedback_msg :: "'f Feedback"
  result_msg :: "'f Feedback"
  phase :: phase
  trace :: "'f event list"

definition emit :: "'f event \<Rightarrow> 'f exec_state \<Rightarrow> 'f exec_state" where
  "emit e s = s\<lparr>trace := trace s @ [e]\<rparr>"

definition deliver :: "'f tick \<Rightarrow> 'f exec_state \<Rightarrow> 'f exec_state" where
  "deliver t s = s\<lparr>node := foldl update_gripper_stat (node s) (stat_msgs t)\<rparr>"

text \<open>
  The branch of the loop body taken when \<^verbatim>\<open>self._stat\<close> is not \<^verbatim>\<open>None\<close>. The test is
  \<^verbatim>\<open>fabs(goal_handle.request.command.position - feedback_msg.position) <
  self._position_tolerance or self._stat.obj_detected\<close>.
\<close>

definition report ::
  "'f float_ops \<Rightarrow> 'f GripperCommand \<Rightarrow> 'f GripperStat \<Rightarrow> 'f exec_state \<Rightarrow> 'f exec_state" where
  "report fl goal st s =
     (let fb1 = (feedback_msg s)\<lparr>fb_position := stat_position st, stalled := \<not> is_moving st\<rparr>;
          hit = (flt fl (fabs fl (fsub fl (position goal) (fb_position fb1))) (position_tolerance (node s))
                 \<or> obj_detected st);
          fb2 = (if hit then fb1\<lparr>reached_goal := True\<rparr> else fb1);
          s1 = (if hit then emit (Log_info ''Goal achieved: True'') (s\<lparr>feedback_msg := fb2\<rparr>)
                else s\<lparr>feedback_msg := fb2\<rparr>);
          s2 = emit (Publish_feedback fb2) s1
      in if reached_goal fb2 then (emit Succeed s2)\<lparr>phase := Succeeded\<rparr> else s2)"

text \<open>
  One pass through the loop, from the test of \<^verbatim>\<open>rclpy.ok()\<close> to \<^verbatim>\<open>rate.sleep()\<close>. The
  timeout test is \<^verbatim>\<open>not (dt < self._timeout)\<close> with
  \<^verbatim>\<open>dt = self.get_time() - start_time\<close>.
\<close>

definition loop_iteration ::
  "'f float_ops \<Rightarrow> 'f GripperCommand \<Rightarrow> 'f \<Rightarrow> 'f tick \<Rightarrow> 'f exec_state \<Rightarrow> 'f exec_state" where
  "loop_iteration fl goal start_time t s0 =
     (let s = deliver t s0 in
      if \<not> ok t then s\<lparr>phase := Shutdown\<rparr>
      else
        let dt = fsub fl (get_time fl (clock t)) start_time in
        if \<not> flt fl dt (timeout (node s)) then
          emit (Log_warn ''Gripper timeout reached'') (s\<lparr>phase := TimedOut\<rparr>)
        else
          (case stat (node s) of
             None \<Rightarrow> emit (Log_warn ''No gripper feedback yet'') s
           | Some st \<Rightarrow> report fl goal st s))"

text \<open>
  The loop over the passes that the surroundings allow. The second component is the
  part of the observations that the loop has not consumed when it stops; a state that
  is still \<open>Polling\<close> when the list is used up is a loop that is still running.
\<close>

fun poll ::
  "'f float_ops \<Rightarrow> 'f GripperCommand \<Rightarrow> 'f \<Rightarrow> 'f tick list \<Rightarrow> 'f exec_state \<Rightarrow>
   'f exec_state \<times> 'f tick list" where
  "poll fl goal start_time [] s = (s, [])"
| "poll fl goal start_time (t # ts) s =
     (let s' = loop_iteration fl goal start_time t s in
      if phase s' = Polling then poll fl goal start_time ts s' else (s', ts))"

text \<open>The state at the head of the loop: the command is out, the messages are fresh.\<close>

definition initial_state ::
  "'f float_ops \<Rightarrow> 'f Robotiq85ActionServer \<Rightarrow> 'f GripperCommand \<Rightarrow> 'f exec_state" where
  "initial_state fl self goal =
     \<lparr>node = self,
      feedback_msg = \<lparr>fb_position = f_zero fl, stalled = False, reached_goal = False\<rparr>,
      result_msg = \<lparr>fb_position = f_zero fl, stalled = False, reached_goal = False\<rparr>,
      phase = Polling,
      trace = [Log_info ''Gripper executing goal...'',
               Publish_cmd \<lparr>cmd_position = position goal, force = max_effort goal,
                            speed = gripper_speed self\<rparr>]\<rparr>"

definition run ::
  "'f float_ops \<Rightarrow> 'f Robotiq85ActionServer \<Rightarrow> 'f GripperCommand \<Rightarrow> 'f \<Rightarrow> 'f tick list \<Rightarrow>
   'f exec_state" where
  "run fl self goal start_time ts = fst (poll fl goal start_time ts (initial_state fl self goal))"

text \<open>
  The surroundings of one call of the execute callback: the clock reading taken before
  the loop, the passes of the loop, and whether the thread started on \<^verbatim>\<open>rclpy.spin\<close>
  ever finishes, which is what \<^verbatim>\<open>thread.join()\<close> waits for.
\<close>

record 'f environment =
  start_clock :: Time
  ticks :: "'f tick list"
  spin_returns :: bool

text \<open>
  The callback. The first component is \<open>None\<close> while the call has not returned: the loop
  is still running when the observations end, or \<^verbatim>\<open>thread.join()\<close> blocks. After the
  join the source binds \<^verbatim>\<open>result_msg\<close> and evaluates \<^verbatim>\<open>return result\<close>; no name
  \<^verbatim>\<open>result\<close> is bound in the function, the module or the builtins, so the statement
  raises.
\<close>

definition execute_callback ::
  "'f float_ops \<Rightarrow> 'f Robotiq85ActionServer \<Rightarrow> 'f GripperCommand \<Rightarrow> 'f environment \<Rightarrow>
   (exn + 'f Feedback) option \<times> 'f exec_state" where
  "execute_callback fl self goal env =
     (let s = run fl self goal (get_time fl (start_clock env)) (ticks env) in
      if phase s = Polling then (None, s)
      else if \<not> spin_returns env then (None, s)
      else (Some (Inl NameError), s\<lparr>result_msg := feedback_msg s\<rparr>))"

section \<open>Reading a trace\<close>

fun feedbacks :: "'f event list \<Rightarrow> 'f Feedback list" where
  "feedbacks [] = []"
| "feedbacks (Publish_feedback fb # es) = fb # feedbacks es"
| "feedbacks (e # es) = feedbacks es"

fun commands :: "'f event list \<Rightarrow> 'f GripperCmd list" where
  "commands [] = []"
| "commands (Publish_cmd c # es) = c # commands es"
| "commands (e # es) = commands es"

text \<open>
  The condition for a reached goal in the words of the specification, on the goal, the
  configured tolerance and a status: the distance between the goal position and the status
  position, in the arithmetic of the floats, is below the tolerance, or the status reports
  a detected object.
\<close>

definition reached_spec ::
  "'f float_ops \<Rightarrow> 'f GripperCommand \<Rightarrow> 'f Robotiq85ActionServer \<Rightarrow> 'f GripperStat \<Rightarrow> bool" where
  "reached_spec fl goal self st \<longleftrightarrow>
     flt fl (fabs fl (fsub fl (position goal) (stat_position st))) (position_tolerance self)
     \<or> obj_detected st"

text \<open>
  The time since the start in the words of the specification: the clock reading of the
  pass minus the clock reading taken before the loop, in the arithmetic of the floats.
\<close>

definition elapsed :: "'f float_ops \<Rightarrow> 'f \<Rightarrow> 'f tick \<Rightarrow> 'f" where
  "elapsed fl start_time t = fsub fl (get_time fl (clock t)) start_time"

text \<open>The value of \<^verbatim>\<open>self._stat\<close> that pass \<open>t\<close> reads, after the passes \<open>pre\<close>.\<close>

definition stat_read ::
  "'f float_ops \<Rightarrow> 'f Robotiq85ActionServer \<Rightarrow> 'f GripperCommand \<Rightarrow> 'f \<Rightarrow> 'f tick list \<Rightarrow>
   'f tick \<Rightarrow> 'f GripperStat option" where
  "stat_read fl self goal start_time pre t =
     stat (node (deliver t (run fl self goal start_time pre)))"

section \<open>Example executions\<close>

text \<open>
  The floats of the examples are real numbers and their operations are the operations of
  the reals. On the values of the examples every comparison that the loop makes has the
  same outcome in double precision.
\<close>

definition exact :: "real float_ops" where
  "exact = \<lparr>float_of_int = real_of_int, fadd = (+), fsub = (-), fmul = (*), fabs = abs,
            flt = (<), f_1e_9 = 1 / 10 ^ 9, f_zero = 0\<rparr>"

text \<open>
  The constructor with the three parameter values it reads, and the node with the declared
  defaults. No status has arrived when the node is built.
\<close>

definition init :: "'f \<Rightarrow> 'f \<Rightarrow> 'f \<Rightarrow> 'f Robotiq85ActionServer" where
  "init timeout_param position_tolerance_param gripper_speed_param =
     \<lparr>timeout = timeout_param, position_tolerance = position_tolerance_param,
      gripper_speed = gripper_speed_param, stat = None\<rparr>"

definition default_server :: "real Robotiq85ActionServer" where
  "default_server = init 5 (5 / 1000) (565 / 10000)"

definition example_goal :: "real GripperCommand" where
  "example_goal = \<lparr>position = 4 / 100, max_effort = 100\<rparr>"

text \<open>A clock reading, a number of milliseconds after the epoch of the clock.\<close>

definition at_ms :: "nat \<Rightarrow> Time" where
  "at_ms n = \<lparr>sec = int (n div 1000), nanosec = (n mod 1000) * 1000000\<rparr>"

definition quiet_tick :: "nat \<Rightarrow> real tick" where
  "quiet_tick n = \<lparr>ok = True, clock = at_ms n, stat_msgs = [], cancel_requested = False\<rparr>"

definition stat_tick :: "nat \<Rightarrow> real GripperStat \<Rightarrow> real tick" where
  "stat_tick n st = \<lparr>ok = True, clock = at_ms n, stat_msgs = [st], cancel_requested = False\<rparr>"

definition cancel_tick :: "nat \<Rightarrow> real GripperStat \<Rightarrow> real tick" where
  "cancel_tick n st = \<lparr>ok = True, clock = at_ms n, stat_msgs = [st], cancel_requested = True\<rparr>"

definition far_stat :: "real GripperStat" where
  "far_stat = \<lparr>stat_position = 2 / 100, is_moving = True, obj_detected = False\<rparr>"

definition near_stat :: "real GripperStat" where
  "near_stat = \<lparr>stat_position = 38 / 1000, is_moving = True, obj_detected = False\<rparr>"

definition zero_timeout_server :: "real Robotiq85ActionServer" where
  "zero_timeout_server = init 0 (5 / 1000) (565 / 10000)"

definition silent_env :: "real environment" where
  "silent_env = \<lparr>start_clock = at_ms 0, ticks = [quiet_tick 10, quiet_tick 20], spin_returns = True\<rparr>"

definition timeout_env :: "real environment" where
  "timeout_env = \<lparr>start_clock = at_ms 0,
     ticks = [stat_tick 10 far_stat, stat_tick 5000 far_stat, stat_tick 5010 near_stat],
     spin_returns = True\<rparr>"

definition success_env :: "real environment" where
  "success_env = \<lparr>start_clock = at_ms 0,
     ticks = [quiet_tick 10, stat_tick 20 far_stat, stat_tick 30 near_stat],
     spin_returns = True\<rparr>"

definition first_tick_env :: "real environment" where
  "first_tick_env = \<lparr>start_clock = at_ms 0, ticks = [stat_tick 0 near_stat, stat_tick 10 near_stat],
     spin_returns = True\<rparr>"

definition cancel_env :: "real environment" where
  "cancel_env = \<lparr>start_clock = at_ms 0,
     ticks = [cancel_tick 10 far_stat, cancel_tick 20 far_stat], spin_returns = True\<rparr>"

definition no_cancel_env :: "real environment" where
  "no_cancel_env = \<lparr>start_clock = at_ms 0,
     ticks = [stat_tick 10 far_stat, stat_tick 20 far_stat], spin_returns = True\<rparr>"

section \<open>Basic facts\<close>

lemmas example_defs = exact_def default_server_def init_def example_goal_def at_ms_def quiet_tick_def stat_tick_def
  cancel_tick_def far_stat_def near_stat_def zero_timeout_server_def silent_env_def timeout_env_def
  success_env_def first_tick_env_def cancel_env_def no_cancel_env_def
lemmas exec_defs = run_def initial_state_def loop_iteration_def report_def deliver_def emit_def
  get_time_def update_gripper_stat_def stat_read_def reached_spec_def elapsed_def Let_def

lemma feedbacks_append: "feedbacks (xs @ ys) = feedbacks xs @ feedbacks ys"
  by (induction xs rule: feedbacks.induct) simp_all

lemma commands_append: "commands (xs @ ys) = commands xs @ commands ys"
  by (induction xs rule: commands.induct) simp_all

lemma foldl_update_timeout: "timeout (foldl update_gripper_stat n ms) = timeout n"
  by (induction ms arbitrary: n) (simp_all add: update_gripper_stat_def)

lemma foldl_update_tolerance:
  "position_tolerance (foldl update_gripper_stat n ms) = position_tolerance n"
  by (induction ms arbitrary: n) (simp_all add: update_gripper_stat_def)

lemma deliver_fields [simp]:
  "phase (deliver t s) = phase s" "trace (deliver t s) = trace s"
  "feedback_msg (deliver t s) = feedback_msg s" "result_msg (deliver t s) = result_msg s"
  "timeout (node (deliver t s)) = timeout (node s)"
  "position_tolerance (node (deliver t s)) = position_tolerance (node s)"
  by (simp_all add: deliver_def foldl_update_timeout foldl_update_tolerance)

lemma emit_fields [simp]:
  "phase (emit e s) = phase s" "trace (emit e s) = trace s @ [e]"
  "feedback_msg (emit e s) = feedback_msg s" "result_msg (emit e s) = result_msg s"
  "node (emit e s) = node s"
  by (simp_all add: emit_def)

lemma report_node [simp]: "node (report fl goal st s) = node s"
  by (simp add: report_def Let_def)

lemma loop_iteration_timeout [simp]:
  "timeout (node (loop_iteration fl goal start t s)) = timeout (node s)"
  by (simp add: loop_iteration_def Let_def split: option.splits)

lemma loop_iteration_tolerance [simp]:
  "position_tolerance (node (loop_iteration fl goal start t s)) = position_tolerance (node s)"
  by (simp add: loop_iteration_def Let_def split: option.splits)

lemma report_phase:
  "phase s = Polling \<Longrightarrow> \<not> reached_goal (feedback_msg s) \<Longrightarrow>
   phase (report fl goal st s) = (if flt fl (fabs fl (fsub fl (position goal) (stat_position st))) (position_tolerance (node s)) \<or> obj_detected st then Succeeded else Polling)"
  by (simp add: report_def Let_def)

lemma report_feedback:
  "\<not> reached_goal (feedback_msg s) \<Longrightarrow>
   feedback_msg (report fl goal st s) =
     \<lparr>fb_position = stat_position st, stalled = \<not> is_moving st,
      reached_goal = (flt fl (fabs fl (fsub fl (position goal) (stat_position st))) (position_tolerance (node s)) \<or> obj_detected st)\<rparr>"
  by (simp add: report_def Let_def)

lemma report_trace:
  "\<not> reached_goal (feedback_msg s) \<Longrightarrow>
   trace (report fl goal st s) =
     (if flt fl (fabs fl (fsub fl (position goal) (stat_position st))) (position_tolerance (node s)) \<or> obj_detected st
      then trace s @ [Log_info ''Goal achieved: True'', Publish_feedback (feedback_msg (report fl goal st s)), Succeed]
      else trace s @ [Publish_feedback (feedback_msg (report fl goal st s))])"
  by (simp add: report_def Let_def)

lemma loop_iteration_unreached:
  "\<not> reached_goal (feedback_msg s) \<Longrightarrow> phase (loop_iteration fl goal start t s) = Polling \<Longrightarrow>
   \<not> reached_goal (feedback_msg (loop_iteration fl goal start t s))"
  by (auto simp add: loop_iteration_def report_def Let_def split: option.splits if_splits)

lemma poll_unreached:
  "\<not> reached_goal (feedback_msg s) \<Longrightarrow> phase (fst (poll fl goal start ts s)) = Polling \<Longrightarrow>
   \<not> reached_goal (feedback_msg (fst (poll fl goal start ts s)))"
proof (induction ts arbitrary: s)
  case Nil
  then show ?case by simp
next
  case (Cons t ts)
  then show ?case
    by (auto simp add: Let_def loop_iteration_unreached split: if_splits)
qed

lemma poll_timeout [simp]: "timeout (node (fst (poll fl goal start ts s))) = timeout (node s)"
  by (induction ts arbitrary: s) (simp_all add: Let_def)

lemma poll_tolerance [simp]:
  "position_tolerance (node (fst (poll fl goal start ts s))) = position_tolerance (node s)"
  by (induction ts arbitrary: s) (simp_all add: Let_def)

lemma poll_append:
  "phase (fst (poll fl goal start pre s)) = Polling \<Longrightarrow>
   poll fl goal start (pre @ ts) s = poll fl goal start ts (fst (poll fl goal start pre s))"
  by (induction pre arbitrary: s) (auto simp add: Let_def split: if_splits)

lemma run_unreached:
  "phase (run fl self goal start ts) = Polling \<Longrightarrow> \<not> reached_goal (feedback_msg (run fl self goal start ts))"
  unfolding run_def by (rule poll_unreached) (simp_all add: initial_state_def)

lemma run_timeout [simp]: "timeout (node (run fl self goal start ts)) = timeout self"
  by (simp add: run_def initial_state_def)

lemma run_tolerance [simp]: "position_tolerance (node (run fl self goal start ts)) = position_tolerance self"
  by (simp add: run_def initial_state_def)

lemma poll_step:
  "phase (run fl self goal start pre) = Polling \<Longrightarrow>
   poll fl goal start (pre @ t # post) (initial_state fl self goal) =
     (let s' = loop_iteration fl goal start t (run fl self goal start pre) in
      if phase s' = Polling then poll fl goal start post s' else (s', post))"
  by (simp add: run_def poll_append)

lemma run_snoc:
  "phase (run fl self goal start pre) = Polling \<Longrightarrow>
   run fl self goal start (pre @ [t]) = loop_iteration fl goal start t (run fl self goal start pre)"
  by (simp add: run_def poll_append Let_def)


lemma loop_iteration_status:
  assumes "phase s = Polling" and "\<not> reached_goal (feedback_msg s)"
    and "ok t" and "flt fl (elapsed fl start t) (timeout (node s))"
    and "stat (node (deliver t s)) = Some st"
  shows "loop_iteration fl goal start t s = report fl goal st (deliver t s)"
  using assms by (simp add: loop_iteration_def elapsed_def Let_def)

lemma run_status:
  assumes "phase (run fl self goal start pre) = Polling"
    and "ok t" and "flt fl (elapsed fl start t) (timeout self)"
    and "stat_read fl self goal start pre t = Some st"
  shows "run fl self goal start (pre @ [t]) = report fl goal st (deliver t (run fl self goal start pre))"
  using assms run_unreached [OF assms(1)]
  by (simp add: run_snoc stat_read_def loop_iteration_status)

lemma report_commands: "commands (trace (report fl goal st s)) = commands (trace s)"
  by (simp add: report_def Let_def commands_append)

lemma loop_iteration_commands:
  "commands (trace (loop_iteration fl goal start t s)) = commands (trace s)"
  by (simp add: loop_iteration_def Let_def commands_append report_commands split: option.splits)

lemma poll_commands: "commands (trace (fst (poll fl goal start ts s))) = commands (trace s)"
  by (induction ts arbitrary: s) (simp_all add: Let_def loop_iteration_commands)

lemma report_extends: "take (length (trace s)) (trace (report fl goal st s)) = trace s"
  by (simp add: report_def Let_def)

lemma loop_iteration_extends:
  "take (length (trace s)) (trace (loop_iteration fl goal start t s)) = trace s"
  using report_extends [where s = "deliver t s" and fl = fl and goal = goal]
  by (simp add: loop_iteration_def Let_def split: option.splits)

lemma take_take_extends:
  assumes "take (length a) b = a" and "take (length b) c = b"
  shows "take (length a) c = a"
proof -
  have "length a \<le> length b" using assms(1) by (metis length_take min.cobounded1)
  then have "take (length a) c = take (length a) (take (length b) c)" by (simp add: min_def)
  with assms show ?thesis by simp
qed

lemma poll_extends: "take (length (trace s)) (trace (fst (poll fl goal start ts s))) = trace s"
proof (induction ts arbitrary: s)
  case Nil
  then show ?case by simp
next
  case (Cons t ts)
  show ?case
  proof (cases "phase (loop_iteration fl goal start t s) = Polling")
    case True
    then show ?thesis
      using take_take_extends [OF loop_iteration_extends Cons.IH] by simp
  next
    case False
    then show ?thesis by (simp add: loop_iteration_extends)
  qed
qed

lemma loop_iteration_silent:
  assumes "stat (node s) = None" and "phase s = Polling"
    and "ok t" and "stat_msgs t = []" and "flt fl (elapsed fl start t) (timeout (node s))"
  shows "phase (loop_iteration fl goal start t s) = Polling \<and>
         stat (node (loop_iteration fl goal start t s)) = None \<and>
         feedbacks (trace (loop_iteration fl goal start t s)) = feedbacks (trace s)"
  using assms by (simp add: loop_iteration_def deliver_def emit_def elapsed_def Let_def feedbacks_append)

lemma poll_silent:
  assumes "stat (node s) = None" and "phase s = Polling"
    and "\<forall>t \<in> set ts. ok t \<and> stat_msgs t = [] \<and> flt fl (elapsed fl start t) (timeout (node s))"
  shows "phase (fst (poll fl goal start ts s)) = Polling \<and>
         feedbacks (trace (fst (poll fl goal start ts s))) = feedbacks (trace s)"
  using assms
proof (induction ts arbitrary: s)
  case Nil
  then show ?case by simp
next
  case (Cons t ts)
  have step: "phase (loop_iteration fl goal start t s) = Polling \<and>
         stat (node (loop_iteration fl goal start t s)) = None \<and>
         feedbacks (trace (loop_iteration fl goal start t s)) = feedbacks (trace s)"
    using Cons.prems by (intro loop_iteration_silent) simp_all
  have "phase (fst (poll fl goal start ts (loop_iteration fl goal start t s))) = Polling \<and>
        feedbacks (trace (fst (poll fl goal start ts (loop_iteration fl goal start t s)))) =
          feedbacks (trace (loop_iteration fl goal start t s))"
    using step Cons.prems by (intro Cons.IH) simp_all
  with step show ?case by (simp add: Let_def)
qed

lemma loop_iteration_cancel:
  "loop_iteration fl goal start (t\<lparr>cancel_requested := b\<rparr>) s = loop_iteration fl goal start t s"
  by (simp add: loop_iteration_def deliver_def Let_def)

lemma poll_cancel:
  assumes "map (cancel_requested_update (\<lambda>_. False)) ts = map (cancel_requested_update (\<lambda>_. False)) ts'"
  shows "fst (poll fl goal start ts s) = fst (poll fl goal start ts' s)"
  using assms
proof (induction ts arbitrary: ts' s)
  case Nil
  then show ?case by simp
next
  case (Cons t ts)
  then obtain t' ts'' where c: "ts' = t' # ts''" by (cases ts') auto
  with Cons.prems have e: "t\<lparr>cancel_requested := False\<rparr> = t'\<lparr>cancel_requested := False\<rparr>"
    and r: "map (cancel_requested_update (\<lambda>_. False)) ts = map (cancel_requested_update (\<lambda>_. False)) ts''"
    by simp_all
  have "loop_iteration fl goal start t s = loop_iteration fl goal start (t\<lparr>cancel_requested := False\<rparr>) s"
    by (simp only: loop_iteration_cancel)
  also have "\<dots> = loop_iteration fl goal start t' s"
    unfolding e by (simp only: loop_iteration_cancel)
  finally have l: "loop_iteration fl goal start t s = loop_iteration fl goal start t' s" .
  show ?case
    unfolding c using Cons.IH [OF r] by (simp add: l Let_def)
qed

lemma timeout_stops:
  assumes "phase (run fl self goal start pre) = Polling"
    and "ok t" and "\<not> flt fl (elapsed fl start t) (timeout self)"
  shows "snd (poll fl goal start (pre @ t # post) (initial_state fl self goal)) = post"
    and "phase (run fl self goal start (pre @ t # post)) = TimedOut"
    and "\<not> reached_goal (feedback_msg (run fl self goal start (pre @ t # post)))"
    and "feedbacks (trace (run fl self goal start (pre @ t # post))) = feedbacks (trace (run fl self goal start pre))"
proof -
  let ?s = "run fl self goal start pre"
  have l: "loop_iteration fl goal start t ?s =
      emit (Log_warn ''Gripper timeout reached'') ((deliver t ?s)\<lparr>phase := TimedOut\<rparr>)"
    using assms by (simp add: loop_iteration_def elapsed_def Let_def)
  have q: "poll fl goal start (pre @ t # post) (initial_state fl self goal) = (loop_iteration fl goal start t ?s, post)"
    by (simp add: poll_step [OF assms(1)] Let_def l)
  show "snd (poll fl goal start (pre @ t # post) (initial_state fl self goal)) = post"
    by (simp add: q)
  have r: "run fl self goal start (pre @ t # post) = loop_iteration fl goal start t ?s"
    by (simp add: run_def q)
  show "phase (run fl self goal start (pre @ t # post)) = TimedOut"
    by (simp add: r l)
  show "\<not> reached_goal (feedback_msg (run fl self goal start (pre @ t # post)))"
    using run_unreached [OF assms(1)] by (simp add: r l)
  show "feedbacks (trace (run fl self goal start (pre @ t # post))) = feedbacks (trace (run fl self goal start pre))"
    by (simp add: r l feedbacks_append)
qed

lemma execute_callback_no_result: "fst (execute_callback fl self goal env) \<noteq> Some (Inr r)"
  by (simp add: execute_callback_def Let_def)

section \<open>The reached condition\<close>

text \<open>
  C1. On a pass of the loop that gets as far as reading a status (the node is running, the
  elapsed time compares below the timeout, a status is stored), the feedback says that the
  goal is reached exactly when the distance between the goal position and the status
  position compares below the tolerance or the status reports a detected object; the loop
  is left as succeeded on that pass exactly in that case and goes on polling otherwise.
  Whatever the pass observes, the loop is left as succeeded only when a status is stored
  and satisfies the condition. Differences and comparisons are those of the floats, for
  every float arithmetic.
\<close>

theorem succeeded_iff_reached:
  assumes "phase (run fl self goal start pre) = Polling"
  shows "(ok t \<and> flt fl (elapsed fl start t) (timeout self) \<and> stat_read fl self goal start pre t = Some st \<longrightarrow>
            (phase (run fl self goal start (pre @ [t])) = Succeeded \<longleftrightarrow> reached_spec fl goal self st) \<and>
            (phase (run fl self goal start (pre @ [t])) = Polling \<longleftrightarrow> \<not> reached_spec fl goal self st) \<and>
            (reached_goal (feedback_msg (run fl self goal start (pre @ [t]))) \<longleftrightarrow> reached_spec fl goal self st))
       \<and> (phase (run fl self goal start (pre @ [t])) = Succeeded \<longrightarrow>
            (case stat_read fl self goal start pre t of None \<Rightarrow> False | Some st' \<Rightarrow> reached_spec fl goal self st'))"
proof (intro conjI impI)
  assume h: "ok t \<and> flt fl (elapsed fl start t) (timeout self) \<and> stat_read fl self goal start pre t = Some st"
  have u: "\<not> reached_goal (feedback_msg (deliver t (run fl self goal start pre)))"
    using run_unreached [OF assms] by simp
  have p: "phase (deliver t (run fl self goal start pre)) = Polling"
    using assms by simp
  have r: "run fl self goal start (pre @ [t]) = report fl goal st (deliver t (run fl self goal start pre))"
    using assms h by (simp add: run_status)
  show "phase (run fl self goal start (pre @ [t])) = Succeeded \<longleftrightarrow> reached_spec fl goal self st"
    by (simp add: r report_phase [OF p u] reached_spec_def)
  show "phase (run fl self goal start (pre @ [t])) = Polling \<longleftrightarrow> \<not> reached_spec fl goal self st"
    by (simp add: r report_phase [OF p u] reached_spec_def)
  show "reached_goal (feedback_msg (run fl self goal start (pre @ [t]))) \<longleftrightarrow> reached_spec fl goal self st"
    by (simp add: r report_feedback [OF u] reached_spec_def)
next
  assume s: "phase (run fl self goal start (pre @ [t])) = Succeeded"
  have u: "\<not> reached_goal (feedback_msg (deliver t (run fl self goal start pre)))"
    using run_unreached [OF assms] by simp
  have p: "phase (deliver t (run fl self goal start pre)) = Polling"
    using assms by simp
  from s have "phase (loop_iteration fl goal start t (run fl self goal start pre)) = Succeeded"
    by (simp add: run_snoc [OF assms])
  then show "case stat_read fl self goal start pre t of None \<Rightarrow> False | Some st' \<Rightarrow> reached_spec fl goal self st'"
    using p u
    by (auto simp add: loop_iteration_def Let_def stat_read_def report_phase reached_spec_def
        split: option.splits if_splits)
qed

theorem succeeded_iff_reached_witness:
  "phase (run exact default_server example_goal 0 [quiet_tick 10]) = Polling \<and>
   ok (stat_tick 20 near_stat) \<and>
   flt exact (elapsed exact 0 (stat_tick 20 near_stat)) (timeout default_server) \<and>
   stat_read exact default_server example_goal 0 [quiet_tick 10] (stat_tick 20 near_stat) = Some near_stat \<and>
   reached_spec exact example_goal default_server near_stat \<and>
   phase (run exact default_server example_goal 0 ([quiet_tick 10] @ [stat_tick 20 near_stat])) = Succeeded"
proof -
  have p: "phase (run exact default_server example_goal 0 [quiet_tick 10]) = Polling"
    by (simp add: exec_defs example_defs)
  have h: "ok (stat_tick 20 near_stat) \<and>
     flt exact (elapsed exact 0 (stat_tick 20 near_stat)) (timeout default_server) \<and>
     stat_read exact default_server example_goal 0 [quiet_tick 10] (stat_tick 20 near_stat) = Some near_stat"
    by (simp add: exec_defs example_defs)
  have r: "reached_spec exact example_goal default_server near_stat"
    by (simp add: exec_defs example_defs)
  from succeeded_iff_reached [OF p, of "stat_tick 20 near_stat" near_stat] h r
  have "phase (run exact default_server example_goal 0 ([quiet_tick 10] @ [stat_tick 20 near_stat])) = Succeeded"
    by blast
  with p h r show ?thesis by blast
qed

section \<open>Feedback\<close>

text \<open>
  C7. On a pass of the loop that gets as far as reading a status (the node is running, the
  elapsed time compares below the timeout in the floats, a status is stored), exactly one
  feedback message is published:
  the feedback messages of the trace grow by one message, whose position is the position
  of the status and whose stalled flag is the negation of the moving flag of the status.
\<close>

theorem feedback_per_status:
  assumes "phase (run fl self goal start pre) = Polling"
    and "ok t" and "flt fl (elapsed fl start t) (timeout self)"
    and "stat_read fl self goal start pre t = Some st"
  shows "feedbacks (trace (run fl self goal start (pre @ [t]))) =
         feedbacks (trace (run fl self goal start pre)) @
           [\<lparr>fb_position = stat_position st, stalled = \<not> is_moving st,
             reached_goal = reached_spec fl goal self st\<rparr>]"
proof -
  have u: "\<not> reached_goal (feedback_msg (deliver t (run fl self goal start pre)))"
    using run_unreached [OF assms(1)] by simp
  have r: "run fl self goal start (pre @ [t]) = report fl goal st (deliver t (run fl self goal start pre))"
    using assms by (rule run_status)
  show ?thesis
    unfolding r report_trace [OF u]
    by (simp add: feedbacks_append report_feedback [OF u] reached_spec_def)
qed

theorem feedback_per_status_witness:
  "phase (run exact default_server example_goal 0 [quiet_tick 10]) = Polling \<and>
   ok (stat_tick 20 far_stat) \<and>
   flt exact (elapsed exact 0 (stat_tick 20 far_stat)) (timeout default_server) \<and>
   stat_read exact default_server example_goal 0 [quiet_tick 10] (stat_tick 20 far_stat) = Some far_stat \<and>
   feedbacks (trace (run exact default_server example_goal 0 ([quiet_tick 10] @ [stat_tick 20 far_stat]))) =
     [\<lparr>fb_position = 2 / 100, stalled = False, reached_goal = False\<rparr>]"
proof -
  have p: "phase (run exact default_server example_goal 0 [quiet_tick 10]) = Polling"
    by (simp add: exec_defs example_defs)
  have o: "ok (stat_tick 20 far_stat)"
    by (simp add: example_defs)
  have d: "flt exact (elapsed exact 0 (stat_tick 20 far_stat)) (timeout default_server)"
    by (simp add: exec_defs example_defs)
  have r: "stat_read exact default_server example_goal 0 [quiet_tick 10] (stat_tick 20 far_stat) = Some far_stat"
    by (simp add: exec_defs example_defs)
  have f: "feedbacks (trace (run exact default_server example_goal 0 [quiet_tick 10])) = []"
    by (simp add: exec_defs example_defs)
  have c: "\<not> reached_spec exact example_goal default_server far_stat"
    by (simp add: exec_defs example_defs)
  show ?thesis
    using feedback_per_status [OF p o d r] p o d r
    by (simp add: f c) (simp add: far_stat_def)
qed

text \<open>
  C10. On the pass on which the reached condition first holds (a pass that gets as far as
  reading a status, with the condition evaluated in the floats), the feedback with the
  reached flag set is published before the goal is marked as succeeded, and these are the
  last events of the execution. Whenever a pass leaves the loop, by success, by timeout or
  otherwise, the loop consumes no later pass: the state, and with it the published
  feedback, is the same whatever later passes would have observed.
\<close>

theorem terminal_pass_is_last:
  assumes "phase (run fl self goal start pre) = Polling"
  shows "(ok t \<and> flt fl (elapsed fl start t) (timeout self) \<and>
          stat_read fl self goal start pre t = Some st \<and> reached_spec fl goal self st \<longrightarrow>
            trace (run fl self goal start (pre @ [t])) =
              trace (run fl self goal start pre) @
                [Log_info ''Goal achieved: True'',
                 Publish_feedback \<lparr>fb_position = stat_position st, stalled = \<not> is_moving st,
                                   reached_goal = True\<rparr>,
                 Succeed] \<and>
            phase (run fl self goal start (pre @ [t])) = Succeeded)
       \<and> (phase (run fl self goal start (pre @ [t])) \<noteq> Polling \<longrightarrow>
            poll fl goal start (pre @ t # post) (initial_state fl self goal) =
              (run fl self goal start (pre @ [t]), post) \<and>
            run fl self goal start (pre @ t # post) = run fl self goal start (pre @ [t]))"
proof (intro conjI impI)
  assume h: "ok t \<and> flt fl (elapsed fl start t) (timeout self) \<and>
          stat_read fl self goal start pre t = Some st \<and> reached_spec fl goal self st"
  have u: "\<not> reached_goal (feedback_msg (deliver t (run fl self goal start pre)))"
    using run_unreached [OF assms] by simp
  have p: "phase (deliver t (run fl self goal start pre)) = Polling"
    using assms by simp
  have r: "run fl self goal start (pre @ [t]) = report fl goal st (deliver t (run fl self goal start pre))"
    using assms h by (simp add: run_status)
  have c: "flt fl (fabs fl (fsub fl (position goal) (stat_position st))) (position_tolerance self) \<or> obj_detected st"
    using h by (simp add: reached_spec_def)
  show "trace (run fl self goal start (pre @ [t])) =
              trace (run fl self goal start pre) @
                [Log_info ''Goal achieved: True'',
                 Publish_feedback \<lparr>fb_position = stat_position st, stalled = \<not> is_moving st,
                                   reached_goal = True\<rparr>,
                 Succeed]"
    using c unfolding r report_trace [OF u] report_feedback [OF u] by simp
  show "phase (run fl self goal start (pre @ [t])) = Succeeded"
    using c unfolding r report_phase [OF p u] by simp
next
  assume n: "phase (run fl self goal start (pre @ [t])) \<noteq> Polling"
  then have n': "phase (loop_iteration fl goal start t (run fl self goal start pre)) \<noteq> Polling"
    by (simp add: run_snoc [OF assms])
  show q: "poll fl goal start (pre @ t # post) (initial_state fl self goal) =
              (run fl self goal start (pre @ [t]), post)"
    using n' by (simp add: poll_step [OF assms] run_snoc [OF assms] Let_def)
  show "run fl self goal start (pre @ t # post) = run fl self goal start (pre @ [t])"
    using q by (simp add: run_def)
qed

theorem terminal_pass_is_last_witness:
  "phase (run exact default_server example_goal 0 [quiet_tick 10, stat_tick 20 far_stat]) = Polling \<and>
   ok (stat_tick 30 near_stat) \<and>
   flt exact (elapsed exact 0 (stat_tick 30 near_stat)) (timeout default_server) \<and>
   stat_read exact default_server example_goal 0 [quiet_tick 10, stat_tick 20 far_stat] (stat_tick 30 near_stat)
     = Some near_stat \<and>
   reached_spec exact example_goal default_server near_stat \<and>
   phase (run exact default_server example_goal 0 ([quiet_tick 10, stat_tick 20 far_stat] @ [stat_tick 30 near_stat]))
     \<noteq> Polling \<and>
   run exact default_server example_goal 0
     ([quiet_tick 10, stat_tick 20 far_stat] @ stat_tick 30 near_stat # [stat_tick 40 near_stat]) =
   run exact default_server example_goal 0 ([quiet_tick 10, stat_tick 20 far_stat] @ [stat_tick 30 near_stat])"
proof -
  have p: "phase (run exact default_server example_goal 0 [quiet_tick 10, stat_tick 20 far_stat]) = Polling"
    by (simp add: exec_defs example_defs)
  have h: "ok (stat_tick 30 near_stat) \<and>
     flt exact (elapsed exact 0 (stat_tick 30 near_stat)) (timeout default_server) \<and>
     stat_read exact default_server example_goal 0 [quiet_tick 10, stat_tick 20 far_stat] (stat_tick 30 near_stat)
       = Some near_stat \<and>
     reached_spec exact example_goal default_server near_stat"
    by (simp add: exec_defs example_defs)
  note t = terminal_pass_is_last [OF p, of "stat_tick 30 near_stat" near_stat "[stat_tick 40 near_stat]"]
  from t h
  have s: "phase (run exact default_server example_goal 0
             ([quiet_tick 10, stat_tick 20 far_stat] @ [stat_tick 30 near_stat])) = Succeeded"
    by blast
  then have n: "phase (run exact default_server example_goal 0
             ([quiet_tick 10, stat_tick 20 far_stat] @ [stat_tick 30 near_stat])) \<noteq> Polling"
    by simp
  from t n
  have "run exact default_server example_goal 0
     ([quiet_tick 10, stat_tick 20 far_stat] @ stat_tick 30 near_stat # [stat_tick 40 near_stat]) =
   run exact default_server example_goal 0 ([quiet_tick 10, stat_tick 20 far_stat] @ [stat_tick 30 near_stat])"
    by blast
  with p h n show ?thesis by blast
qed

section \<open>Dispatch of the command\<close>

text \<open>
  C5. One call of the execute callback publishes exactly one command, whatever the number
  of passes of the loop. The command carries the position and the maximal effort of the goal
  and the configured speed, and it is published before the first pass: it is the second
  event of every trace, after the log line of the entry, and it is out when no pass has
  run.
\<close>

theorem one_command_first:
  "commands (trace (snd (execute_callback fl self goal env))) =
     [\<lparr>cmd_position = position goal, force = max_effort goal, speed = gripper_speed self\<rparr>]
   \<and> take 2 (trace (snd (execute_callback fl self goal env))) =
     [Log_info ''Gripper executing goal...'',
      Publish_cmd \<lparr>cmd_position = position goal, force = max_effort goal, speed = gripper_speed self\<rparr>]
   \<and> trace (run fl self goal (get_time fl (start_clock env)) []) =
     [Log_info ''Gripper executing goal...'',
      Publish_cmd \<lparr>cmd_position = position goal, force = max_effort goal, speed = gripper_speed self\<rparr>]"
proof -
  let ?s = "run fl self goal (get_time fl (start_clock env)) (ticks env)"
  have t: "trace (snd (execute_callback fl self goal env)) = trace ?s"
    by (simp add: execute_callback_def Let_def)
  have c: "commands (trace ?s) = commands (trace (initial_state fl self goal))"
    by (simp add: run_def poll_commands)
  have e: "take (length (trace (initial_state fl self goal))) (trace ?s) = trace (initial_state fl self goal)"
    by (simp add: run_def poll_extends)
  have l: "length (trace (initial_state fl self goal)) = 2"
    by (simp add: initial_state_def)
  show ?thesis
    using c e unfolding t l by (simp add: initial_state_def run_def)
qed

section \<open>Absence of a status\<close>

text \<open>
  C6. If no status is stored at the start and none arrives, then as long as the node is
  running and on every pass the elapsed time compares below the timeout in the floats,
  the loop is still polling, no feedback message has been published, and the callback has
  neither returned nor raised.
\<close>

theorem no_status_keeps_polling:
  assumes "stat self = None"
    and "\<forall>t \<in> set (ticks env). ok t \<and> stat_msgs t = [] \<and>
           flt fl (elapsed fl (get_time fl (start_clock env)) t) (timeout self)"
  shows "phase (snd (execute_callback fl self goal env)) = Polling \<and>
         feedbacks (trace (snd (execute_callback fl self goal env))) = [] \<and>
         fst (execute_callback fl self goal env) = None"
proof -
  have "phase (fst (poll fl goal (get_time fl (start_clock env)) (ticks env) (initial_state fl self goal))) = Polling \<and>
        feedbacks (trace (fst (poll fl goal (get_time fl (start_clock env)) (ticks env) (initial_state fl self goal)))) =
          feedbacks (trace (initial_state fl self goal))"
    using assms by (intro poll_silent) (simp_all add: initial_state_def)
  then show ?thesis
    by (simp add: execute_callback_def run_def Let_def) (simp add: initial_state_def)
qed

theorem no_status_keeps_polling_witness:
  "stat default_server = None \<and>
   ticks silent_env = [quiet_tick 10, quiet_tick 20] \<and>
   ok (quiet_tick 10) \<and> stat_msgs (quiet_tick 10) = [] \<and>
   flt exact (elapsed exact (get_time exact (start_clock silent_env)) (quiet_tick 10)) (timeout default_server) \<and>
   ok (quiet_tick 20) \<and> stat_msgs (quiet_tick 20) = [] \<and>
   flt exact (elapsed exact (get_time exact (start_clock silent_env)) (quiet_tick 20)) (timeout default_server) \<and>
   phase (snd (execute_callback exact default_server example_goal silent_env)) = Polling \<and>
   feedbacks (trace (snd (execute_callback exact default_server example_goal silent_env))) = [] \<and>
   fst (execute_callback exact default_server example_goal silent_env) = None"
proof -
  have a: "stat default_server = None"
    by (simp add: example_defs)
  have l: "ticks silent_env = [quiet_tick 10, quiet_tick 20]"
    by (simp add: silent_env_def)
  have t1: "ok (quiet_tick 10) \<and> stat_msgs (quiet_tick 10) = [] \<and>
     flt exact (elapsed exact (get_time exact (start_clock silent_env)) (quiet_tick 10)) (timeout default_server)"
    by (simp add: example_defs get_time_def elapsed_def)
  have t2: "ok (quiet_tick 20) \<and> stat_msgs (quiet_tick 20) = [] \<and>
     flt exact (elapsed exact (get_time exact (start_clock silent_env)) (quiet_tick 20)) (timeout default_server)"
    by (simp add: example_defs get_time_def elapsed_def)
  have b: "\<forall>t \<in> set (ticks silent_env). ok t \<and> stat_msgs t = [] \<and>
       flt exact (elapsed exact (get_time exact (start_clock silent_env)) t) (timeout default_server)"
    unfolding l using t1 t2 by simp
  from no_status_keeps_polling [OF a b, where goal = example_goal] a l t1 t2 show ?thesis by blast
qed

section \<open>Goal and cancel requests\<close>

text \<open>
  C8. The goal callback answers every goal request with an acceptance, whatever position
  and effort the request carries, and the cancel callback answers every cancel request
  with an acceptance.
\<close>

theorem callbacks_accept:
  "snd (goal_callback self goal_request) = GoalResponse_ACCEPT \<and>
   snd (cancel_callback self goal_handle) = CancelResponse_ACCEPT"
  by (simp add: goal_callback_def cancel_callback_def)

section \<open>Cancellation\<close>

text \<open>
  C3, as stated, fails: with a cancellation requested on both passes and a status far
  from the goal, the loop is still polling after the first pass and after the second, and
  a feedback message is published on each of them.
\<close>

theorem cancel_request_counterexample:
  "cancel_requested (cancel_tick 10 far_stat) \<and> cancel_requested (cancel_tick 20 far_stat) \<and>
   phase (run exact default_server example_goal (get_time exact (start_clock cancel_env)) [cancel_tick 10 far_stat]) = Polling \<and>
   phase (snd (execute_callback exact default_server example_goal cancel_env)) = Polling \<and>
   feedbacks (trace (snd (execute_callback exact default_server example_goal cancel_env))) =
     [\<lparr>fb_position = 2 / 100, stalled = False, reached_goal = False\<rparr>,
      \<lparr>fb_position = 2 / 100, stalled = False, reached_goal = False\<rparr>]"
  by (simp add: execute_callback_def exec_defs example_defs)

text \<open>
  C3, amended. The loop never reads the cancellation request: two calls of the execute
  callback whose surroundings differ only in the cancellation requests return the same
  outcome and the same final state, with the same events.
\<close>

theorem cancel_flag_never_read:
  assumes "start_clock env' = start_clock env" and "spin_returns env' = spin_returns env"
    and "map (cancel_requested_update (\<lambda>_. False)) (ticks env') =
         map (cancel_requested_update (\<lambda>_. False)) (ticks env)"
  shows "execute_callback fl self goal env' = execute_callback fl self goal env"
proof -
  have "run fl self goal (get_time fl (start_clock env')) (ticks env') =
        run fl self goal (get_time fl (start_clock env)) (ticks env)"
    using poll_cancel [OF assms(3)] by (simp add: run_def assms(1))
  then show ?thesis
    unfolding execute_callback_def by (simp only: assms(2))
qed

theorem cancel_flag_never_read_witness:
  "start_clock cancel_env = start_clock no_cancel_env \<and>
   spin_returns cancel_env = spin_returns no_cancel_env \<and>
   map (cancel_requested_update (\<lambda>_. False)) (ticks cancel_env) =
     map (cancel_requested_update (\<lambda>_. False)) (ticks no_cancel_env) \<and>
   execute_callback exact default_server example_goal cancel_env =
     execute_callback exact default_server example_goal no_cancel_env"
proof -
  have a: "start_clock cancel_env = start_clock no_cancel_env"
    by (simp add: example_defs)
  have b: "spin_returns cancel_env = spin_returns no_cancel_env"
    by (simp add: example_defs)
  have c: "map (cancel_requested_update (\<lambda>_. False)) (ticks cancel_env) =
     map (cancel_requested_update (\<lambda>_. False)) (ticks no_cancel_env)"
    by (simp add: example_defs)
  from cancel_flag_never_read [OF a b c, where fl = exact and self = default_server and goal = example_goal] a b c show ?thesis by blast
qed

section \<open>Return of the callback\<close>

text \<open>
  C4. A call on which the goal is reached on the third pass: the loop is left as
  succeeded and \<^verbatim>\<open>result_msg\<close> is bound to the last feedback, but the callback
  raises \<^verbatim>\<open>NameError\<close> at \<^verbatim>\<open>return result\<close> instead of returning a result.
  By \<open>execute_callback_no_result\<close> no call returns a result.
\<close>

theorem success_run_raises:
  "phase (snd (execute_callback exact default_server example_goal success_env)) = Succeeded \<and>
   result_msg (snd (execute_callback exact default_server example_goal success_env)) =
     \<lparr>fb_position = 38 / 1000, stalled = False, reached_goal = True\<rparr> \<and>
   fst (execute_callback exact default_server example_goal success_env) = Some (Inl NameError)"
  by (simp add: execute_callback_def exec_defs example_defs)

text \<open>
  C2. A call on which no status satisfies the reached condition before the timeout: the
  pass on which the elapsed time reaches the timeout leaves the loop as timed out, the pass
  after it is not consumed, and the message bound to \<^verbatim>\<open>result_msg\<close> has the reached
  flag unset; but the callback raises \<^verbatim>\<open>NameError\<close> instead of returning it. The
  behaviour of the loop is \<open>timeout_stops\<close> in general.
\<close>

theorem timeout_run_raises:
  "snd (poll exact example_goal (get_time exact (start_clock timeout_env)) (ticks timeout_env)
         (initial_state exact default_server example_goal)) = [stat_tick 5010 near_stat] \<and>
   phase (snd (execute_callback exact default_server example_goal timeout_env)) = TimedOut \<and>
   \<not> reached_goal (result_msg (snd (execute_callback exact default_server example_goal timeout_env))) \<and>
   fst (execute_callback exact default_server example_goal timeout_env) = Some (Inl NameError)"
  by (simp add: execute_callback_def exec_defs example_defs)

text \<open>
  C9. A call with a timeout of zero: the command is published, the first pass leaves the
  loop as timed out without publishing a feedback message, and the message bound to
  \<^verbatim>\<open>result_msg\<close> has the reached flag unset; but the callback raises
  \<^verbatim>\<open>NameError\<close> instead of returning it.
\<close>

theorem first_pass_timeout_raises:
  "trace (snd (execute_callback exact zero_timeout_server example_goal first_tick_env)) =
     [Log_info ''Gripper executing goal...'',
      Publish_cmd \<lparr>cmd_position = 4 / 100, force = 100, speed = 565 / 10000\<rparr>,
      Log_warn ''Gripper timeout reached''] \<and>
   phase (snd (execute_callback exact zero_timeout_server example_goal first_tick_env)) = TimedOut \<and>
   \<not> reached_goal (result_msg (snd (execute_callback exact zero_timeout_server example_goal first_tick_env))) \<and>
   fst (execute_callback exact zero_timeout_server example_goal first_tick_env) = Some (Inl NameError)"
  by (simp add: execute_callback_def exec_defs example_defs)

end
